theory Spec2Isabelle
  imports Complex_Main "HOL-Library.Sublist"
begin

section \<open>The stress-test runner of the WhisperLive TypeScript client\<close>

text \<open>
  This theory embeds \<^verbatim>\<open>src/stress-test.ts\<close>: the session runner
  \<^verbatim>\<open>runSingleClient\<close>, the batch orchestrator \<^verbatim>\<open>runStressTest\<close> and the
  aggregation done by \<^verbatim>\<open>printResults\<close>.

  What the program cannot decide by itself is an input of the model: the readings of
  \<^verbatim>\<open>Date.now()\<close>, what the client capability does at each step, and which side of each
  \<^verbatim>\<open>Promise.race\<close> settles first.
\<close>

subsection \<open>Thrown values and fallible computations\<close>

text \<open>
  A JavaScript \<^verbatim>\<open>throw\<close> or promise rejection carries any value. The catch blocks only ask
  whether the value is an \<^verbatim>\<open>Error\<close> (then they read its \<^verbatim>\<open>message\<close>) or not (then they
  take \<^verbatim>\<open>String(error)\<close>). A value that is not an \<^verbatim>\<open>Error\<close> either has a string
  conversion, and then it carries the text that \<^verbatim>\<open>String\<close> gives for it, or it has none,
  and then \<^verbatim>\<open>String\<close> itself throws: for an object without a prototype, as
  \<^verbatim>\<open>Object.create(null)\<close>, it throws a \<^verbatim>\<open>TypeError\<close>; for an object whose
  \<^verbatim>\<open>toString\<close> throws, it throws what that method throws. Such a value carries the value
  that its conversion throws.
\<close>

datatype thrown = ErrorObject string | OtherValue string | NoStringConversion thrown

type_synonym 'a js = "thrown + 'a"

definition bindJs :: "'a js \<Rightarrow> ('a \<Rightarrow> 'b js) \<Rightarrow> 'b js" where
  "bindJs m f = (case m of Inl e \<Rightarrow> Inl e | Inr x \<Rightarrow> f x)"

definition tryCatch :: "'a js \<Rightarrow> (thrown \<Rightarrow> 'a js) \<Rightarrow> 'a js" where
  "tryCatch body handler = (case body of Inl e \<Rightarrow> handler e | Inr x \<Rightarrow> Inr x)"

text \<open>
  \<^verbatim>\<open>error instanceof Error ? error.message : String(error)\<close> (lines 85 and 134): the
  expression gives a text, or throws.
\<close>

fun errorText :: "thrown \<Rightarrow> string js" where
  "errorText (ErrorObject message) = Inr message"
| "errorText (OtherValue text) = Inr text"
| "errorText (NoStringConversion e) = Inl e"

text \<open>The values for which the expression gives a text.\<close>

fun printable :: "thrown \<Rightarrow> bool" where
  "printable (ErrorObject message) = True"
| "printable (OtherValue text) = True"
| "printable (NoStringConversion e) = False"

text \<open>What \<^verbatim>\<open>String(Object.create(null))\<close> throws.\<close>

definition noPrototypeObject :: thrown where
  "noPrototypeObject =
     NoStringConversion (ErrorObject ''Cannot convert object to primitive value'')"

subsection \<open>Numbers as text\<close>

text \<open>The decimal text of an integer, as a template literal writes \<^verbatim>\<open>${clientId}\<close>.\<close>

definition digitChar :: "nat \<Rightarrow> char" where
  "digitChar d = ''0123456789'' ! d"

fun showNat :: "nat \<Rightarrow> string" where
  "showNat n = (if n < 10 then [digitChar n] else showNat (n div 10) @ [digitChar (n mod 10)])"

declare showNat.simps [simp del]

definition showInt :: "int \<Rightarrow> string" where
  "showInt i = (if i < 0 then CHR ''-'' # showNat (nat (- i)) else showNat (nat i))"

subsection \<open>The data model\<close>

text \<open>The interface \<^verbatim>\<open>StressTestResult\<close> (lines 16-23); an optional field is an option.\<close>

record StressTestResult =
  clientId :: int
  success :: bool
  startTime :: int
  endTime :: "int option"
  duration :: "int option"
  error :: "string option"

text \<open>
  The two timer delays, in milliseconds: the per-session timer of line 52 and the global
  timer of line 107.
\<close>

definition sessionTimeoutMs :: nat where
  "sessionTimeoutMs = 180000"

definition globalTimeoutMs :: nat where
  "globalTimeoutMs = 210000"

subsection \<open>The client capability and one session\<close>

text \<open>
  A promise of the client either resolves, rejects with a value, or is still pending when
  the timer it is raced against fires.
\<close>

datatype settle = Resolves | Rejects thrown | Pending

text \<open>
  What the environment does during one call of \<^verbatim>\<open>runSingleClient\<close>: the two readings of
  \<^verbatim>\<open>Date.now()\<close> (line 45, and line 76 or 83), whether \<^verbatim>\<open>new WhisperLiveClient\<close> or
  the synchronous \<^verbatim>\<open>disconnect\<close> throws, how \<^verbatim>\<open>connect\<close> and \<^verbatim>\<open>processAudioFile\<close>
  settle, and whether the timer armed with \<^const>\<open>sessionTimeoutMs\<close> fires before the
  work has settled.
\<close>

record session_env =
  nowAtStart :: int
  nowAtEnd :: int
  construct :: "thrown option"
  connect :: settle
  processAudioFile :: settle
  disconnect :: "thrown option"
  timerFirst :: bool

text \<open>The rejection of \<^verbatim>\<open>timeoutPromise\<close> (line 51).\<close>

definition sessionTimeoutError :: "int \<Rightarrow> thrown" where
  "sessionTimeoutError cid =
     ErrorObject (''Client '' @ showInt cid @ '' timed out after 3 minutes'')"

text \<open>The anonymous async function of lines 62-72: connect, process, disconnect.\<close>

definition clientWork :: "session_env \<Rightarrow> settle" where
  "clientWork env =
     (case connect env of
        Rejects e \<Rightarrow> Rejects e
      | Pending \<Rightarrow> Pending
      | Resolves \<Rightarrow>
          (case processAudioFile env of
             Rejects e \<Rightarrow> Rejects e
           | Pending \<Rightarrow> Pending
           | Resolves \<Rightarrow>
               (case disconnect env of
                  Some e \<Rightarrow> Rejects e
                | None \<Rightarrow> Resolves)))"

text \<open>
  \<^verbatim>\<open>await Promise.race([work, timeoutPromise])\<close> (lines 61-74): the timer wins when it
  fires first, and always over work that never settles.
\<close>

definition raceWithTimer :: "settle \<Rightarrow> bool \<Rightarrow> thrown \<Rightarrow> unit js" where
  "raceWithTimer work timerWins timeoutError =
     (case work of
        Pending \<Rightarrow> Inl timeoutError
      | Resolves \<Rightarrow> (if timerWins then Inl timeoutError else Inr ())
      | Rejects e \<Rightarrow> (if timerWins then Inl timeoutError else Inl e))"

text \<open>The body of the \<^verbatim>\<open>try\<close> block up to the end of the race (lines 56-74).\<close>

definition sessionAttempt :: "int \<Rightarrow> session_env \<Rightarrow> unit js" where
  "sessionAttempt cid env =
     bindJs (case construct env of Some e \<Rightarrow> Inl e | None \<Rightarrow> Inr ())
       (\<lambda>_. raceWithTimer (clientWork env) (timerFirst env) (sessionTimeoutError cid))"

text \<open>
  \<^verbatim>\<open>runSingleClient\<close> (lines 41-91). The \<^verbatim>\<open>catch\<close> block evaluates the text of the
  error at line 85; when that throws, the method's promise rejects with what was thrown
  and no outcome is returned.
\<close>

definition runSingleClient :: "int \<Rightarrow> session_env \<Rightarrow> StressTestResult js" where
  "runSingleClient cid env =
     (let result = \<lparr> clientId = cid, success = False, startTime = nowAtStart env,
                     endTime = None, duration = None, error = None \<rparr>
      in tryCatch
           (bindJs (sessionAttempt cid env)
              (\<lambda>_. Inr (result \<lparr> endTime := Some (nowAtEnd env),
                                 duration := Some (nowAtEnd env - startTime result),
                                 success := True \<rparr>)))
           (\<lambda>e. bindJs (errorText e)
                   (\<lambda>text. Inr (result \<lparr> endTime := Some (nowAtEnd env),
                                          duration := Some (nowAtEnd env - startTime result),
                                          error := Some text \<rparr>))))"

text \<open>The values that the client's own steps throw in an environment.\<close>

definition thrownByClient :: "session_env \<Rightarrow> thrown list" where
  "thrownByClient env =
     (case construct env of Some e \<Rightarrow> [e] | None \<Rightarrow> [])
     @ (case connect env of Rejects e \<Rightarrow> [e] | Resolves \<Rightarrow> [] | Pending \<Rightarrow> [])
     @ (case processAudioFile env of Rejects e \<Rightarrow> [e] | Resolves \<Rightarrow> [] | Pending \<Rightarrow> [])
     @ (case disconnect env of Some e \<Rightarrow> [e] | None \<Rightarrow> [])"

text \<open>
  \<^verbatim>\<open>timeoutPromise\<close> is created before the \<^verbatim>\<open>try\<close> block (line 49) and gets its only
  handler from the race (line 61). When the constructor throws, the race is not reached,
  and the rejection of the timer after \<^const>\<open>sessionTimeoutMs\<close> has no handler.
\<close>

definition timeoutPromiseUnhandled :: "session_env \<Rightarrow> bool" where
  "timeoutPromiseUnhandled env = (case construct env of Some e \<Rightarrow> True | None \<Rightarrow> False)"

subsection \<open>String operations used by the reporter\<close>

text \<open>
  \<^verbatim>\<open>String.prototype.includes\<close>: the search string occurs at some position of the
  text. The first argument is the text that is searched.
\<close>

fun includesText :: "string \<Rightarrow> string \<Rightarrow> bool" where
  "includesText [] searchString = (searchString = [])"
| "includesText (c # cs) searchString =
     (prefix searchString (c # cs) \<or> includesText cs searchString)"

text \<open>\<^verbatim>\<open>text.split(':')[0]\<close>: everything before the first colon.\<close>

definition splitFirst :: "string \<Rightarrow> string" where
  "splitFirst text = takeWhile (\<lambda>c. c \<noteq> CHR '':'') text"

subsection \<open>A map that keeps insertion order\<close>

text \<open>
  A JavaScript \<^verbatim>\<open>Map\<close> iterates in insertion order, and \<^verbatim>\<open>set\<close> on a key that is
  present replaces its value in place: an association list with distinct keys.
\<close>

fun mapSet :: "'k \<Rightarrow> 'v \<Rightarrow> ('k \<times> 'v) list \<Rightarrow> ('k \<times> 'v) list" where
  "mapSet k v [] = [(k, v)]"
| "mapSet k v ((k', v') # m) = (if k' = k then (k, v) # m else (k', v') # mapSet k v m)"

definition mapGet :: "'k \<Rightarrow> ('k \<times> 'v) list \<Rightarrow> 'v option" where
  "mapGet k m = map_of m k"

subsection \<open>The failure analysis\<close>

text \<open>
  The bucket of one failed outcome (lines 183-194). \<^verbatim>\<open>if (result.error)\<close> is false for an
  absent message and for the empty string.
\<close>

definition errorType :: "StressTestResult \<Rightarrow> string" where
  "errorType result =
     (case error result of
        None \<Rightarrow> ''Unknown''
      | Some message \<Rightarrow>
          if message = [] then ''Unknown''
          else if includesText message ''timed out'' then ''Timeout''
          else if includesText message ''WebSocket'' then ''WebSocket Error''
          else if includesText message ''Server is not available'' then ''Server Unavailable''
          else splitFirst message)"

text \<open>
  Line 195: \<^verbatim>\<open>errorCounts.set(errorType, (errorCounts.get(errorType) || 0) + 1)\<close>.
\<close>

definition getOrZero :: "'k \<Rightarrow> ('k \<times> nat) list \<Rightarrow> nat" where
  "getOrZero k m = (case mapGet k m of None \<Rightarrow> 0 | Some n \<Rightarrow> n)"

definition countError :: "StressTestResult \<Rightarrow> (string \<times> nat) list \<Rightarrow> (string \<times> nat) list" where
  "countError result counts =
     mapSet (errorType result) (getOrZero (errorType result) counts + 1) counts"

text \<open>
  Lines 179-201: the histogram of the failed outcomes, built only when there is a failure.
\<close>

definition failureAnalysis :: "StressTestResult list \<Rightarrow> (string \<times> nat) list" where
  "failureAnalysis failed = (if length failed > 0 then fold countError failed [] else [])"

subsection \<open>Success rate and recommendation\<close>

text \<open>
  The value of a JavaScript arithmetic expression over integers: a finite number, taken
  exactly, or one of the values that a division by zero gives.
\<close>

datatype js_number = Finite rat | NaN | PosInfinity | NegInfinity

definition jsDivide :: "int \<Rightarrow> int \<Rightarrow> js_number" where
  "jsDivide a b =
     (if b = 0 then (if a = 0 then NaN else if 0 < a then PosInfinity else NegInfinity)
      else Finite (of_int a / of_int b))"

fun jsTimes100 :: "js_number \<Rightarrow> js_number" where
  "jsTimes100 (Finite q) = Finite (q * 100)"
| "jsTimes100 NaN = NaN"
| "jsTimes100 PosInfinity = PosInfinity"
| "jsTimes100 NegInfinity = NegInfinity"

text \<open>Line 153: \<^verbatim>\<open>(successful.length / this.numberOfClients) * 100\<close>.\<close>

definition successRatePercent :: "nat \<Rightarrow> int \<Rightarrow> js_number" where
  "successRatePercent successes clients = jsTimes100 (jsDivide (int successes) clients)"

datatype tier = Excellent | Good | Moderate | Poor

text \<open>
  Lines 204-212. The products with 0.8 and 0.5 are taken exactly: for an integer client
  count below \<open>2 ^ 50\<close> the double-precision product is the exact one whenever that is an
  integer, and is otherwise further from every integer than the rounding error, so the
  comparison with an integer count has the same result.
\<close>

definition recommend :: "nat \<Rightarrow> int \<Rightarrow> tier" where
  "recommend successes clients =
     (if int successes = clients then Excellent
      else if (of_int clients :: rat) * (8 / 10) \<le> of_nat successes then Good
      else if (of_int clients :: rat) * (5 / 10) \<le> of_nat successes then Moderate
      else Poor)"

subsection \<open>The runner and its report\<close>

text \<open>The fields of the class \<^verbatim>\<open>StressTestRunner\<close> (lines 26-28) and its constructor.\<close>

record StressTestRunner =
  numberOfClients :: int
  audioFile :: string
  results :: "StressTestResult list"

definition newRunner :: "int \<Rightarrow> string \<Rightarrow> StressTestRunner" where
  "newRunner clients file = \<lparr> numberOfClients = clients, audioFile = file, results = [] \<rparr>"

text \<open>Lines 145 and 146.\<close>

definition successful :: "StressTestRunner \<Rightarrow> StressTestResult list" where
  "successful runner = filter success (results runner)"

definition failed :: "StressTestRunner \<Rightarrow> StressTestResult list" where
  "failed runner = filter (\<lambda>r. \<not> success r) (results runner)"

text \<open>
  What \<^verbatim>\<open>printResults\<close> computes and writes (lines 144-218). The timing statistics and the
  per-client table (lines 155-177) format the same list and are not part of the record.
\<close>

record report =
  totalTime :: int
  successfulCount :: nat
  failedCount :: nat
  outOf :: int
  successRate :: js_number
  errorCounts :: "(string \<times> nat) list"
  recommendation :: tier
  timeoutFailures :: nat

definition printResults :: "StressTestRunner \<Rightarrow> int \<Rightarrow> report" where
  "printResults runner elapsed =
     \<lparr> totalTime = elapsed,
       successfulCount = length (successful runner),
       failedCount = length (failed runner),
       outOf = numberOfClients runner,
       successRate = successRatePercent (length (successful runner)) (numberOfClients runner),
       errorCounts = failureAnalysis (failed runner),
       recommendation = recommend (length (successful runner)) (numberOfClients runner),
       timeoutFailures =
         length (filter (\<lambda>r. case error r of None \<Rightarrow> False
                                | Some message \<Rightarrow> includesText message ''timed out'')
                   (failed runner)) \<rparr>"

subsection \<open>The batch\<close>

text \<open>
  The environment of one call of \<^verbatim>\<open>runStressTest\<close>: the environment of each session,
  the ids of the sessions whose promises settle before the timer armed with
  \<^const>\<open>globalTimeoutMs\<close> fires, in the order in which they settle, and the readings of
  \<^verbatim>\<open>Date.now()\<close> at lines 101 and 126 or 131.
\<close>

record batch_env =
  session :: "int \<Rightarrow> session_env"
  settleOrder :: "int list"
  batchStart :: int
  batchEnd :: int

text \<open>The promise of session \<open>i\<close> has settled when the global timer fires.\<close>

definition settledInTime :: "batch_env \<Rightarrow> int \<Rightarrow> bool" where
  "settledInTime env i = (i \<in> set (settleOrder env))"

text \<open>
  What the method writes to the console beyond the banner: the report, or the three lines
  of an interruption (lines 132-134), or the first two of them when the text of the error
  at line 134 throws.
\<close>

datatype console_event = Interrupted int string | InterruptedWithoutText int | Report report

record run =
  returned :: "unit js"
  runnerAfter :: StressTestRunner
  console :: "console_event list"

text \<open>The rejection of \<^verbatim>\<open>globalTimeoutPromise\<close> (line 106).\<close>

definition globalTimeoutError :: thrown where
  "globalTimeoutError = ErrorObject ''Entire stress test timed out after 3.5 minutes''"

text \<open>
  The loop of lines 113-115: \<^verbatim>\<open>for (let i = 1; i <= n; i++) promises.push(launch(i))\<close>.
\<close>

function launchClients :: "(int \<Rightarrow> 'a) \<Rightarrow> int \<Rightarrow> int \<Rightarrow> 'a list \<Rightarrow> 'a list" where
  "launchClients launch i n promises =
     (if i \<le> n then launchClients launch (i + 1) n (promises @ [launch i]) else promises)"
  by pat_completeness auto
termination
  by (relation "measure (\<lambda>(launch, i, n, promises). nat (n + 1 - i))") auto

declare launchClients.simps [simp del]

text \<open>
  \<^verbatim>\<open>Promise.all\<close> over promises that have all settled: the values in the order of the
  promises, or a rejection if one of them rejected.
\<close>

fun promiseAll :: "'a js list \<Rightarrow> 'a list js" where
  "promiseAll [] = Inr []"
| "promiseAll (p # ps) =
     (case p of
        Inl e \<Rightarrow> Inl e
      | Inr x \<Rightarrow> (case promiseAll ps of Inl e \<Rightarrow> Inl e | Inr xs \<Rightarrow> Inr (x # xs)))"

text \<open>The first rejection in a list of settled promises.\<close>

fun firstRejection :: "'a js list \<Rightarrow> thrown option" where
  "firstRejection [] = None"
| "firstRejection (Inl e # ps) = Some e"
| "firstRejection (Inr x # ps) = firstRejection ps"

text \<open>
  The promises of the launched sessions that settle before the global timer fires, in the
  order in which they settle. The promise of session \<open>i\<close> is at position \<open>i - 1\<close>.
\<close>

definition settledPromises :: "int \<Rightarrow> batch_env \<Rightarrow> 'a js list \<Rightarrow> 'a js list" where
  "settledPromises n env promises =
     map (\<lambda>i. promises ! nat (i - 1)) (filter (\<lambda>i. 1 \<le> i \<and> i \<le> n) (settleOrder env))"

text \<open>
  The race of lines 121-124. \<^verbatim>\<open>Promise.all\<close> rejects as soon as one of its promises
  rejects, with that rejection; it resolves when every launched session has settled and
  none has rejected; otherwise the rejection of the global timer wins.
\<close>

definition raceWithGlobalTimer :: "int \<Rightarrow> batch_env \<Rightarrow> 'a js list \<Rightarrow> 'a list js" where
  "raceWithGlobalTimer n env promises =
     (case firstRejection (settledPromises n env promises) of
        Some e \<Rightarrow> Inl e
      | None \<Rightarrow>
          (if list_all (settledInTime env) [1..n] then promiseAll promises
           else Inl globalTimeoutError))"

text \<open>The promise of session \<open>i\<close> resolves with an outcome: it does not reject.\<close>

definition sessionReturns :: "batch_env \<Rightarrow> int \<Rightarrow> bool" where
  "sessionReturns env i =
     (case runSingleClient i (session env i) of Inr outcome \<Rightarrow> True | Inl e \<Rightarrow> False)"

text \<open>
  \<^verbatim>\<open>runStressTest\<close> (lines 93-142). On the success path the awaited list is stored in
  \<^verbatim>\<open>this.results\<close> and reported. In the \<^verbatim>\<open>catch\<close> block \<^verbatim>\<open>this.results\<close> is what it was
  before the call; it is reported when it is not empty, and the error is thrown again.
  When the text of the error at line 134 throws, the block ends there with what was
  thrown.
\<close>

definition runStressTest :: "StressTestRunner \<Rightarrow> batch_env \<Rightarrow> run" where
  "runStressTest runner env =
     (let clientPromises =
            launchClients (\<lambda>i. runSingleClient i (session env i)) 1 (numberOfClients runner) [];
          elapsed = batchEnd env - batchStart env
      in case raceWithGlobalTimer (numberOfClients runner) env clientPromises of
           Inr outcomes \<Rightarrow>
             \<lparr> returned = Inr (),
               runnerAfter = runner \<lparr> results := outcomes \<rparr>,
               console = [Report (printResults (runner \<lparr> results := outcomes \<rparr>) elapsed)] \<rparr>
         | Inl e \<Rightarrow>
             (case errorText e of
                Inr text \<Rightarrow>
                  \<lparr> returned = Inl e,
                    runnerAfter = runner,
                    console =
                      Interrupted elapsed text
                      # (if length (results runner) > 0
                         then [Report (printResults runner elapsed)] else []) \<rparr>
              | Inl e' \<Rightarrow>
                  \<lparr> returned = Inl e',
                    runnerAfter = runner,
                    console = [InterruptedWithoutText elapsed] \<rparr>))"

subsection \<open>Concrete environments\<close>

text \<open>A session whose client connects, processes the file and disconnects in 500 ms.\<close>

definition quickSession :: session_env where
  "quickSession =
     \<lparr> nowAtStart = 1000, nowAtEnd = 1500, construct = None, connect = Resolves,
       processAudioFile = Resolves, disconnect = None, timerFirst = False \<rparr>"

text \<open>A session whose \<^verbatim>\<open>connect\<close> rejects at once.\<close>

definition refusedSession :: session_env where
  "refusedSession = quickSession \<lparr> nowAtEnd := 1003,
     connect := Rejects (ErrorObject ''WebSocket connection failed: Connection refused'') \<rparr>"

text \<open>A session whose client never answers: the timer fires.\<close>

definition hangingSession :: session_env where
  "hangingSession = quickSession \<lparr> nowAtEnd := 181000, processAudioFile := Pending \<rparr>"

text \<open>A session whose \<^verbatim>\<open>connect\<close> rejects with the string \<open>boom\<close>, not an \<^verbatim>\<open>Error\<close>.\<close>

definition stringRejectSession :: session_env where
  "stringRejectSession = quickSession \<lparr> nowAtEnd := 1002,
     connect := Rejects (OtherValue ''boom'') \<rparr>"

text \<open>A session whose \<^verbatim>\<open>connect\<close> rejects with an object that has no prototype.\<close>

definition noPrototypeSession :: session_env where
  "noPrototypeSession = quickSession \<lparr> nowAtEnd := 1002,
     connect := Rejects noPrototypeObject \<rparr>"

text \<open>Every session succeeds; sessions 1 to 10 settle in time, in the order of their ids.\<close>

definition calmBatch :: batch_env where
  "calmBatch =
     \<lparr> session = (\<lambda>i. quickSession), settleOrder = [1, 2, 3, 4, 5, 6, 7, 8, 9, 10],
       batchStart = 1000, batchEnd = 1600 \<rparr>"

text \<open>Session 2 is refused, and settles first; all settle in time.\<close>

definition mixedBatch :: batch_env where
  "mixedBatch = calmBatch \<lparr> session := (\<lambda>i. if i = 2 then refusedSession else quickSession),
     settleOrder := [2, 1, 3] \<rparr>"

text \<open>
  The \<^verbatim>\<open>connect\<close> of session 2 rejects with an object that has no prototype; all three
  sessions settle in time, session 2 first.
\<close>

definition noPrototypeBatch :: batch_env where
  "noPrototypeBatch =
     calmBatch \<lparr> session := (\<lambda>i. if i = 2 then noPrototypeSession else quickSession),
       settleOrder := [2, 1, 3] \<rparr>"

text \<open>
  Sessions 1 to 7 have succeeded when the global timer fires; sessions 8 to 10 have not
  settled.
\<close>

definition truncatedBatch :: batch_env where
  "truncatedBatch =
     \<lparr> session = (\<lambda>i. if i \<le> 7 then quickSession else hangingSession),
       settleOrder = [1, 2, 3, 4, 5, 6, 7], batchStart = 1000, batchEnd = 211000 \<rparr>"

text \<open>The outcome of the refused session when it runs as client 2.\<close>

definition refusedOutcome :: StressTestResult where
  "refusedOutcome =
     \<lparr> clientId = 2, success = False, startTime = 1000, endTime = Some 1003,
       duration = Some 3,
       error = Some ''WebSocket connection failed: Connection refused'' \<rparr>"

text \<open>The outcome of the session rejected with a string when it runs as client 4.\<close>

definition stringRejectOutcome :: StressTestResult where
  "stringRejectOutcome =
     \<lparr> clientId = 4, success = False, startTime = 1000, endTime = Some 1002,
       duration = Some 2, error = Some ''boom'' \<rparr>"

text \<open>The outcome of the quick session when it runs as client \<open>cid\<close>.\<close>

definition quickOutcome :: "int \<Rightarrow> StressTestResult" where
  "quickOutcome cid =
     \<lparr> clientId = cid, success = True, startTime = 1000, endTime = Some 1500,
       duration = Some 500, error = None \<rparr>"

text \<open>A failed outcome of client \<open>cid\<close> that carries a given error field.\<close>

definition failedWith :: "int \<Rightarrow> string option \<Rightarrow> StressTestResult" where
  "failedWith cid message =
     \<lparr> clientId = cid, success = False, startTime = 0, endTime = Some 5, duration = Some 5,
       error = message \<rparr>"

text \<open>The runner after the batch of three in which session 2 is refused.\<close>

definition mixedRunner :: StressTestRunner where
  "mixedRunner =
     \<lparr> numberOfClients = 3, audioFile = ''german_sample_16k.wav'',
       results = [quickOutcome 1, refusedOutcome, quickOutcome 3] \<rparr>"

text \<open>
  A runner holding five outcomes: two timeouts, one failure with an empty message, one
  failure without a message, and one success.
\<close>

definition timeoutRunner :: StressTestRunner where
  "timeoutRunner =
     \<lparr> numberOfClients = 5, audioFile = ''german_sample_16k.wav'',
       results = [failedWith 1 (Some ''Client 1 timed out after 3 minutes''),
                  failedWith 2 (Some []),
                  quickOutcome 3,
                  failedWith 4 None,
                  failedWith 5 (Some ''Client 5 timed out after 3 minutes'')] \<rparr>"

subsection \<open>The classification policy in the specification's words\<close>

text \<open>
  Specification, section 4.3: a message "contains a marker" when the marker occurs in it,
  with some text before and some text after.
\<close>

definition containsMarker :: "string \<Rightarrow> string \<Rightarrow> bool" where
  "containsMarker message marker = (\<exists>before after. message = before @ marker @ after)"

section \<open>Properties of one session\<close>

lemma runSingleClient_cases:
  "runSingleClient cid env =
     (case sessionAttempt cid env of
        Inr _ \<Rightarrow> Inr \<lparr> clientId = cid, success = True, startTime = nowAtStart env,
                       endTime = Some (nowAtEnd env),
                       duration = Some (nowAtEnd env - nowAtStart env), error = None \<rparr>
      | Inl e \<Rightarrow>
          (case errorText e of
             Inr text \<Rightarrow>
               Inr \<lparr> clientId = cid, success = False, startTime = nowAtStart env,
                     endTime = Some (nowAtEnd env),
                     duration = Some (nowAtEnd env - nowAtStart env),
                     error = Some text \<rparr>
           | Inl e' \<Rightarrow> Inl e'))"
  by (simp add: runSingleClient_def tryCatch_def bindJs_def split: sum.splits)

text \<open>The attempt succeeds exactly when no step fails and the timer does not fire first.\<close>

lemma sessionAttempt_succeeds_iff:
  "(sessionAttempt cid env = Inr ()) =
     (construct env = None \<and> connect env = Resolves \<and> processAudioFile env = Resolves
      \<and> disconnect env = None \<and> \<not> timerFirst env)"
  by (simp add: sessionAttempt_def bindJs_def raceWithTimer_def clientWork_def
      split: option.splits settle.splits)

text \<open>An attempt fails with the timer's error or with a value that the client threw.\<close>

lemma sessionAttempt_fails_with:
  "sessionAttempt cid env = Inl e \<Longrightarrow>
     e = sessionTimeoutError cid \<or> e \<in> set (thrownByClient env)"
  by (auto simp: sessionAttempt_def bindJs_def raceWithTimer_def clientWork_def
      thrownByClient_def split: option.splits settle.splits if_splits)

lemma printable_iff: "printable e = (\<exists>text. errorText e = Inr text)"
  by (cases e) simp_all

lemma printable_sessionTimeoutError: "printable (sessionTimeoutError cid)"
  by (simp add: sessionTimeoutError_def)

lemma sessionAttempt_fails_printable:
  assumes "list_all printable (thrownByClient env)" and "sessionAttempt cid env = Inl e"
  shows "printable e"
proof -
  from sessionAttempt_fails_with [OF assms(2)]
  consider "e = sessionTimeoutError cid" | "e \<in> set (thrownByClient env)" by blast
  then show ?thesis
  proof cases
    case 1
    then show ?thesis by (simp add: printable_sessionTimeoutError)
  next
    case 2
    with assms(1) show ?thesis by (simp add: list_all_iff)
  qed
qed

lemma runSingleClient_returns:
  assumes "list_all printable (thrownByClient env)"
  shows "\<exists>outcome. runSingleClient cid env = Inr outcome"
proof (cases "sessionAttempt cid env")
  case (Inl e)
  with assms have "printable e" by (rule sessionAttempt_fails_printable)
  then obtain msg where "errorText e = Inr msg" by (auto simp: printable_iff)
  with Inl show ?thesis by (simp add: runSingleClient_cases)
next
  case (Inr u)
  then show ?thesis by (simp add: runSingleClient_cases)
qed

text \<open>
  The method's promise rejects exactly when the attempt fails with a value that has no
  string conversion, and then with what the conversion throws.
\<close>

lemma runSingleClient_rejects_iff:
  "(runSingleClient cid env = Inl e') = (sessionAttempt cid env = Inl (NoStringConversion e'))"
proof (cases "sessionAttempt cid env")
  case (Inl e)
  then show ?thesis by (cases e) (simp_all add: runSingleClient_cases)
next
  case (Inr u)
  then show ?thesis by (simp add: runSingleClient_cases)
qed

lemma clientId_runSingleClient: "runSingleClient cid env = Inr outcome \<Longrightarrow> clientId outcome = cid"
  by (auto simp: runSingleClient_cases split: sum.splits)

text \<open>When the timer wins the race, the attempt fails with the timeout error.\<close>

lemma sessionAttempt_timer_wins:
  "construct env = None \<Longrightarrow> timerFirst env \<or> clientWork env = Pending \<Longrightarrow>
     sessionAttempt cid env = Inl (sessionTimeoutError cid)"
  by (auto simp: sessionAttempt_def bindJs_def raceWithTimer_def split: settle.splits)

lemma hangingSession_run:
  "runSingleClient 8 hangingSession =
     Inr \<lparr> clientId = 8, success = False, startTime = 1000, endTime = Some 181000,
           duration = Some 180000, error = Some ''Client 8 timed out after 3 minutes'' \<rparr>"
  by (simp add: runSingleClient_cases sessionAttempt_def bindJs_def raceWithTimer_def
      clientWork_def hangingSession_def quickSession_def sessionTimeoutError_def showInt_def
      showNat.simps digitChar_def)

lemma refusedSession_run: "runSingleClient 2 refusedSession = Inr refusedOutcome"
  by (simp add: runSingleClient_cases sessionAttempt_def bindJs_def raceWithTimer_def
      clientWork_def refusedSession_def quickSession_def refusedOutcome_def)

lemma stringRejectSession_attempt: "sessionAttempt 4 stringRejectSession = Inl (OtherValue ''boom'')"
  by (simp add: sessionAttempt_def bindJs_def raceWithTimer_def clientWork_def
      stringRejectSession_def quickSession_def)

lemma noPrototypeSession_run:
  "runSingleClient cid noPrototypeSession
     = Inl (ErrorObject ''Cannot convert object to primitive value'')"
  by (simp add: runSingleClient_cases sessionAttempt_def bindJs_def raceWithTimer_def
      clientWork_def noPrototypeSession_def quickSession_def noPrototypeObject_def)

text \<open>
  When the constructor throws a value that has a text, the outcome carries it, and the
  timer's later rejection is left without a handler.
\<close>

lemma constructor_throws_leaves_timer_unhandled:
  assumes "construct env = Some e" and "errorText e = Inr text"
  shows "timeoutPromiseUnhandled env \<and>
         runSingleClient cid env =
           Inr \<lparr> clientId = cid, success = False, startTime = nowAtStart env,
                 endTime = Some (nowAtEnd env),
                 duration = Some (nowAtEnd env - nowAtStart env), error = Some text \<rparr>"
  using assms
  by (simp add: timeoutPromiseUnhandled_def runSingleClient_cases sessionAttempt_def bindJs_def)

text \<open>
  Claim C2, as stated, fails: the claim makes "error absent" and "duration present"
  equivalent, but the \<^verbatim>\<open>catch\<close> block (lines 83-85) records the duration of a failed
  session too. Client 2, whose connection is refused, ends with an error message and a
  duration of 3 ms.
\<close>

theorem C2_refused_outcome_has_error_and_duration:
  "runSingleClient 2 refusedSession = Inr refusedOutcome \<and>
   \<not> ((success refusedOutcome \<longleftrightarrow> error refusedOutcome = None) \<and>
       (error refusedOutcome = None \<longleftrightarrow> duration refusedOutcome \<noteq> None))"
  using refusedSession_run by (simp add: refusedOutcome_def)

text \<open>
  Claim C2, amended: for every outcome that \<^verbatim>\<open>runSingleClient\<close> produces, it succeeded
  exactly when its error field is absent; its end time and its duration are present
  whether it succeeded or failed, the duration being the difference of the two clock
  readings.
\<close>

theorem C2_success_iff_no_error_duration_always:
  "runSingleClient cid env = Inr outcome \<Longrightarrow>
     (success outcome \<longleftrightarrow> error outcome = None) \<and>
     endTime outcome = Some (nowAtEnd env) \<and>
     duration outcome = Some (nowAtEnd env - nowAtStart env)"
  by (auto simp add: runSingleClient_cases split: sum.splits)

theorem C2_success_iff_no_error_duration_always_witness:
  "runSingleClient 2 refusedSession = Inr refusedOutcome \<and>
     (success refusedOutcome \<longleftrightarrow> error refusedOutcome = None) \<and>
     endTime refusedOutcome = Some (nowAtEnd refusedSession) \<and>
     duration refusedOutcome = Some (nowAtEnd refusedSession - nowAtStart refusedSession)"
  using C2_success_iff_no_error_duration_always [OF refusedSession_run] refusedSession_run
  by simp

text \<open>
  Claim C3, as stated, fails: not every behaviour of the client ends in an outcome. When
  \<^verbatim>\<open>connect\<close> rejects with an object that has no string conversion, the \<^verbatim>\<open>catch\<close>
  block itself throws at line 85, where it takes \<^verbatim>\<open>String(error)\<close>, and the promise of
  \<^verbatim>\<open>runSingleClient\<close> rejects with that \<^verbatim>\<open>TypeError\<close>.
\<close>

theorem C3_value_without_text_escapes_the_catch:
  "connect noPrototypeSession
     = Rejects (NoStringConversion (ErrorObject ''Cannot convert object to primitive value'')) \<and>
   runSingleClient 2 noPrototypeSession
     = Inl (ErrorObject ''Cannot convert object to primitive value'')"
  using noPrototypeSession_run [of 2]
  by (simp add: noPrototypeSession_def quickSession_def noPrototypeObject_def)

text \<open>
  Claim C3, amended: for every client id and every behaviour of the client in which each
  value that the constructor, \<^verbatim>\<open>connect\<close>, \<^verbatim>\<open>processAudioFile\<close> or \<^verbatim>\<open>disconnect\<close>
  throws is an \<^verbatim>\<open>Error\<close> or has a string conversion (steps that never settle and the
  timer firing first included), \<^verbatim>\<open>runSingleClient\<close> returns an outcome and does not throw.
  The outcome carries the client id; when the attempt failed with a thrown value, the
  outcome is a failure whose error field is the message of that \<^verbatim>\<open>Error\<close> or the string
  conversion of that value, and otherwise it is a success without an error. It is a success
  exactly when no step fails and the timer does not fire first.
\<close>

theorem C3_failures_with_text_are_captured:
  assumes "list_all printable (thrownByClient env)"
  shows "\<exists>outcome. runSingleClient cid env = Inr outcome \<and> clientId outcome = cid \<and>
     (case sessionAttempt cid env of
        Inl e \<Rightarrow> \<not> success outcome \<and>
                 (\<exists>text. errorText e = Inr text \<and> error outcome = Some text)
      | Inr _ \<Rightarrow> success outcome \<and> error outcome = None) \<and>
     (success outcome \<longleftrightarrow>
        construct env = None \<and> connect env = Resolves \<and> processAudioFile env = Resolves
        \<and> disconnect env = None \<and> \<not> timerFirst env)"
proof -
  let ?clean = "construct env = None \<and> connect env = Resolves \<and> processAudioFile env = Resolves
        \<and> disconnect env = None \<and> \<not> timerFirst env"
  have iff: "(sessionAttempt cid env = Inr ()) = ?clean"
    by (rule sessionAttempt_succeeds_iff)
  show ?thesis
  proof (cases "sessionAttempt cid env")
    case (Inl e)
    with iff have dirty: "\<not> ?clean" by simp
    from assms Inl have "printable e" by (rule sessionAttempt_fails_printable)
    then obtain msg where "errorText e = Inr msg" by (auto simp: printable_iff)
    with Inl dirty show ?thesis by (simp add: runSingleClient_cases)
  next
    case (Inr u)
    with iff have "?clean" by simp
    with Inr show ?thesis by (simp add: runSingleClient_cases)
  qed
qed

theorem C3_failures_with_text_are_captured_witness:
  "list_all printable (thrownByClient stringRejectSession) \<and>
   sessionAttempt 4 stringRejectSession = Inl (OtherValue ''boom'') \<and>
   (\<exists>outcome. runSingleClient 4 stringRejectSession = Inr outcome \<and> clientId outcome = 4 \<and>
      \<not> success outcome \<and> error outcome = Some ''boom'')"
proof -
  have texts: "list_all printable (thrownByClient stringRejectSession)"
    by (simp add: thrownByClient_def stringRejectSession_def quickSession_def)
  from C3_failures_with_text_are_captured [OF texts, of 4] texts
  show ?thesis by (auto simp: stringRejectSession_attempt)
qed

text \<open>
  Claim C7: the delay of the global timer, 210000 ms, is strictly greater than the delay
  of the per-session timer, 180000 ms.
\<close>

theorem C7_global_deadline_exceeds_session_deadline:
  "sessionTimeoutMs < globalTimeoutMs \<and> sessionTimeoutMs = 180000 \<and> globalTimeoutMs = 210000"
  by (simp add: sessionTimeoutMs_def globalTimeoutMs_def)


section \<open>Properties of the batch\<close>

text \<open>The loop pushes one promise per client id, in the order of the ids.\<close>

lemma launchClients_map: "launchClients launch i n promises = promises @ map launch [i..n]"
proof (induction launch i n promises rule: launchClients.induct)
  case (1 launch i n promises)
  show ?case
  proof (cases "i \<le> n")
    case True
    then have "[i..n] = i # [i + 1..n]" by (rule upto_rec1)
    with True 1 show ?thesis by (simp add: launchClients.simps [of launch i n promises])
  next
    case False
    then show ?thesis by (simp add: launchClients.simps [of launch i n promises])
  qed
qed

lemma promiseAll_fulfilled:
  "(\<And>p. p \<in> set ps \<Longrightarrow> \<exists>x. p = Inr x) \<Longrightarrow> promiseAll ps = Inr (map projr ps)"
  by (induction ps) (auto split: sum.splits)

lemma promiseAll_resolves:
  "promiseAll ps = Inr xs \<Longrightarrow> ps = map Inr xs"
  by (induction ps arbitrary: xs) (auto split: sum.splits)

lemma firstRejection_none_iff:
  "(firstRejection ps = None) = list_all (\<lambda>p. \<not> isl p) ps"
  by (induction ps rule: firstRejection.induct) simp_all

lemma sessionReturns_iff:
  "sessionReturns env i = (\<not> isl (runSingleClient i (session env i)))"
  by (simp add: sessionReturns_def split: sum.splits)

text \<open>The promise of a launched session is at the position of its id.\<close>

lemma nth_launched: "1 \<le> i \<Longrightarrow> i \<le> n \<Longrightarrow> map launch [1..n] ! nat (i - 1) = launch i"
  by simp

lemma settledPromises_launched:
  "settledPromises n env (map launch [1..n])
     = map launch (filter (\<lambda>i. 1 \<le> i \<and> i \<le> n) (settleOrder env))"
  unfolding settledPromises_def
proof (rule map_cong [OF refl])
  fix i
  assume "i \<in> set (filter (\<lambda>i. 1 \<le> i \<and> i \<le> n) (settleOrder env))"
  then have "1 \<le> i" and "i \<le> n" by simp_all
  then show "map launch [1..n] ! nat (i - 1) = launch i" by (rule nth_launched)
qed

lemma no_settled_rejection_iff:
  "(firstRejection (settledPromises n env (map (\<lambda>i. runSingleClient i (session env i)) [1..n]))
      = None)
   = list_all (sessionReturns env) (filter (\<lambda>i. 1 \<le> i \<and> i \<le> n) (settleOrder env))"
  by (simp add: settledPromises_launched firstRejection_none_iff list_all_iff
      sessionReturns_iff)

lemma all_settled_none_rejected_iff:
  assumes "list_all (settledInTime env) [1..n]"
  shows "list_all (sessionReturns env) (filter (\<lambda>i. 1 \<le> i \<and> i \<le> n) (settleOrder env))
           = list_all (sessionReturns env) [1..n]"
  using assms by (auto simp: list_all_iff settledInTime_def)

lemma promiseAll_sessions:
  assumes "list_all (sessionReturns env) ids"
  shows "promiseAll (map (\<lambda>i. runSingleClient i (session env i)) ids) =
     Inr (map (\<lambda>i. projr (runSingleClient i (session env i))) ids)"
proof -
  have "promiseAll (map (\<lambda>i. runSingleClient i (session env i)) ids) =
          Inr (map projr (map (\<lambda>i. runSingleClient i (session env i)) ids))"
  proof (rule promiseAll_fulfilled)
    fix p
    assume "p \<in> set (map (\<lambda>i. runSingleClient i (session env i)) ids)"
    then obtain i where "i \<in> set ids" and p: "p = runSingleClient i (session env i)" by auto
    with assms have "sessionReturns env i" by (simp add: list_all_iff)
    with p show "\<exists>x. p = Inr x" by (simp add: sessionReturns_def split: sum.splits)
  qed
  then show ?thesis by (simp add: comp_def)
qed

text \<open>The three ways in which the race of \<^verbatim>\<open>runStressTest\<close> ends.\<close>

lemma race_all_settled:
  assumes "list_all (settledInTime env) [1..n]" and "list_all (sessionReturns env) [1..n]"
  shows "raceWithGlobalTimer n env (map (\<lambda>i. runSingleClient i (session env i)) [1..n])
           = Inr (map (\<lambda>i. projr (runSingleClient i (session env i))) [1..n])"
proof -
  from assms have "list_all (sessionReturns env)
                     (filter (\<lambda>i. 1 \<le> i \<and> i \<le> n) (settleOrder env))"
    by (simp add: all_settled_none_rejected_iff)
  then have "firstRejection
               (settledPromises n env (map (\<lambda>i. runSingleClient i (session env i)) [1..n]))
             = None"
    by (simp only: no_settled_rejection_iff)
  with assms show ?thesis
    by (simp add: raceWithGlobalTimer_def promiseAll_sessions)
qed

lemma race_global_timeout:
  assumes "\<not> list_all (settledInTime env) [1..n]"
    and "list_all (sessionReturns env) (filter (\<lambda>i. 1 \<le> i \<and> i \<le> n) (settleOrder env))"
  shows "raceWithGlobalTimer n env (map (\<lambda>i. runSingleClient i (session env i)) [1..n])
           = (Inl globalTimeoutError :: StressTestResult list js)"
proof -
  from assms(2) have "firstRejection
               (settledPromises n env (map (\<lambda>i. runSingleClient i (session env i)) [1..n]))
             = None"
    by (simp only: no_settled_rejection_iff)
  with assms(1) show ?thesis by (simp add: raceWithGlobalTimer_def)
qed

lemma race_session_rejected:
  assumes "\<not> list_all (sessionReturns env) (filter (\<lambda>i. 1 \<le> i \<and> i \<le> n) (settleOrder env))"
  shows "\<exists>e. raceWithGlobalTimer n env (map (\<lambda>i. runSingleClient i (session env i)) [1..n])
           = (Inl e :: StressTestResult list js)"
proof -
  from assms have "firstRejection
               (settledPromises n env (map (\<lambda>i. runSingleClient i (session env i)) [1..n]))
             \<noteq> None"
    by (simp only: no_settled_rejection_iff) simp
  then show ?thesis by (auto simp: raceWithGlobalTimer_def)
qed

lemma runStressTest_unfold:
  "runStressTest runner env =
     (case raceWithGlobalTimer (numberOfClients runner) env
             (map (\<lambda>i. runSingleClient i (session env i)) [1..numberOfClients runner]) of
        Inr outcomes \<Rightarrow>
          \<lparr> returned = Inr (),
            runnerAfter = runner \<lparr> results := outcomes \<rparr>,
            console = [Report (printResults (runner \<lparr> results := outcomes \<rparr>)
                                 (batchEnd env - batchStart env))] \<rparr>
      | Inl e \<Rightarrow>
          (case errorText e of
             Inr text \<Rightarrow>
               \<lparr> returned = Inl e,
                 runnerAfter = runner,
                 console =
                   Interrupted (batchEnd env - batchStart env) text
                   # (if length (results runner) > 0
                      then [Report (printResults runner (batchEnd env - batchStart env))]
                      else []) \<rparr>
           | Inl e' \<Rightarrow>
               \<lparr> returned = Inl e',
                 runnerAfter = runner,
                 console = [InterruptedWithoutText (batchEnd env - batchStart env)] \<rparr>))"
  by (simp add: runStressTest_def launchClients_map Let_def)

text \<open>The paths of \<^verbatim>\<open>runStressTest\<close>.\<close>

lemma runStressTest_all_settled:
  assumes "list_all (settledInTime env) [1..numberOfClients runner]"
    and "list_all (sessionReturns env) [1..numberOfClients runner]"
  shows "runStressTest runner env =
     \<lparr> returned = Inr (),
       runnerAfter = runner \<lparr> results :=
         map (\<lambda>i. projr (runSingleClient i (session env i))) [1..numberOfClients runner] \<rparr>,
       console = [Report (printResults (runner \<lparr> results :=
         map (\<lambda>i. projr (runSingleClient i (session env i))) [1..numberOfClients runner] \<rparr>)
           (batchEnd env - batchStart env))] \<rparr>"
  by (simp add: runStressTest_unfold race_all_settled [OF assms])

lemma runStressTest_global_timeout:
  assumes "\<not> list_all (settledInTime env) [1..numberOfClients runner]"
    and "list_all (sessionReturns env)
           (filter (\<lambda>i. 1 \<le> i \<and> i \<le> numberOfClients runner) (settleOrder env))"
  shows "runStressTest runner env =
     \<lparr> returned = Inl globalTimeoutError,
       runnerAfter = runner,
       console = Interrupted (batchEnd env - batchStart env)
                   ''Entire stress test timed out after 3.5 minutes''
                 # (if length (results runner) > 0
                    then [Report (printResults runner (batchEnd env - batchStart env))]
                    else []) \<rparr>"
  by (simp add: runStressTest_unfold race_global_timeout [OF assms] globalTimeoutError_def)

text \<open>A run that does not return normally leaves the runner as it was.\<close>

lemma runStressTest_throws_keeps_runner:
  assumes "returned (runStressTest runner env) \<noteq> Inr ()"
  shows "runnerAfter (runStressTest runner env) = runner"
  using assms by (simp add: runStressTest_unfold split: sum.splits)

text \<open>The run returns normally exactly when all sessions settle in time and none rejects.\<close>

lemma runStressTest_returns_iff:
  "(returned (runStressTest runner env) = Inr ()) =
     (list_all (settledInTime env) [1..numberOfClients runner] \<and>
      list_all (sessionReturns env) [1..numberOfClients runner])"
proof (cases "list_all (sessionReturns env)
                (filter (\<lambda>i. 1 \<le> i \<and> i \<le> numberOfClients runner) (settleOrder env))")
  case False
  from race_session_rejected [OF this] have "returned (runStressTest runner env) \<noteq> Inr ()"
    by (auto simp: runStressTest_unfold split: sum.splits)
  moreover have "\<not> (list_all (settledInTime env) [1..numberOfClients runner] \<and>
      list_all (sessionReturns env) [1..numberOfClients runner])"
    using False by (auto simp: all_settled_none_rejected_iff)
  ultimately show ?thesis by simp
next
  case True
  show ?thesis
  proof (cases "list_all (settledInTime env) [1..numberOfClients runner]")
    case settled: True
    with True have "list_all (sessionReturns env) [1..numberOfClients runner]"
      by (simp add: all_settled_none_rejected_iff)
    with settled show ?thesis by (simp add: runStressTest_all_settled)
  next
    case False
    with True show ?thesis
      by (simp add: runStressTest_global_timeout globalTimeoutError_def)
  qed
qed

text \<open>
  On a runner that has not run before, a global timeout leaves \<^verbatim>\<open>this.results\<close> empty
  and writes the interruption only: no report is printed, whatever sessions had settled.
\<close>

lemma fresh_runner_timeout_prints_no_report:
  assumes "\<not> list_all (settledInTime env) [1..n]"
    and "list_all (sessionReturns env) (filter (\<lambda>i. 1 \<le> i \<and> i \<le> n) (settleOrder env))"
  shows "console (runStressTest (newRunner n file) env) =
           [Interrupted (batchEnd env - batchStart env)
              ''Entire stress test timed out after 3.5 minutes''] \<and>
         results (runnerAfter (runStressTest (newRunner n file) env)) = []"
  using assms runStressTest_global_timeout [of env "newRunner n file"]
  by (simp add: newRunner_def)

lemma upto_1_3: "[1..3::int] = [1, 2, 3]"
  by (simp add: upto_rec1)

lemma upto_1_10: "[1..10::int] = [1, 2, 3, 4, 5, 6, 7, 8, 9, 10]"
  by (simp add: upto_rec1)

lemma quickSession_run: "runSingleClient cid quickSession = Inr (quickOutcome cid)"
  by (simp add: runSingleClient_cases sessionAttempt_def bindJs_def raceWithTimer_def
      clientWork_def quickSession_def quickOutcome_def)

text \<open>The batch of three in which session 2 is refused ends in \<^const>\<open>mixedRunner\<close>.\<close>

lemma mixedBatch_settled: "list_all (settledInTime mixedBatch) [1..3]"
  by (simp add: upto_1_3 settledInTime_def mixedBatch_def calmBatch_def)

lemma mixedBatch_returns: "list_all (sessionReturns mixedBatch) [1..3]"
  by (simp add: upto_1_3 sessionReturns_def mixedBatch_def calmBatch_def quickSession_run
      refusedSession_run)

lemma mixedBatch_run:
  "runnerAfter (runStressTest (newRunner 3 ''german_sample_16k.wav'') mixedBatch) = mixedRunner"
proof -
  have "list_all (settledInTime mixedBatch)
          [1..numberOfClients (newRunner 3 ''german_sample_16k.wav'')]"
    and "list_all (sessionReturns mixedBatch)
          [1..numberOfClients (newRunner 3 ''german_sample_16k.wav'')]"
    using mixedBatch_settled mixedBatch_returns by (simp_all add: newRunner_def)
  from runStressTest_all_settled [OF this] show ?thesis
    by (simp add: newRunner_def upto_1_3 mixedBatch_def calmBatch_def mixedRunner_def
        quickSession_run refusedSession_run)
qed

text \<open>
  Claim C1 asks that, when the global timer fires before all sessions have settled, the
  run fails with the batch timeout and the outcomes of the sessions that had completed are
  still reported. The first half holds; the second does not. With ten clients, of which
  sessions 1 to 7 have succeeded and sessions 8 to 10 have not settled when the timer
  fires, \<^verbatim>\<open>runStressTest\<close> throws the timeout error, but \<^verbatim>\<open>this.results\<close> is assigned
  only by the race that has just failed and is still empty: the \<^verbatim>\<open>catch\<close> block writes
  the interruption, its guard \<^verbatim>\<open>this.results.length > 0\<close> is false, and
  \<^verbatim>\<open>printResults\<close> is not called. The seven outcomes are lost.
\<close>

theorem C1_timeout_loses_partial_outcomes:
  "returned (runStressTest (newRunner 10 ''german_sample_16k.wav'') truncatedBatch)
     = Inl (ErrorObject ''Entire stress test timed out after 3.5 minutes'') \<and>
   console (runStressTest (newRunner 10 ''german_sample_16k.wav'') truncatedBatch)
     = [Interrupted 210000 ''Entire stress test timed out after 3.5 minutes''] \<and>
   results (runnerAfter (runStressTest (newRunner 10 ''german_sample_16k.wav'') truncatedBatch))
     = [] \<and>
   filter (settledInTime truncatedBatch) [1..10] = [1, 2, 3, 4, 5, 6, 7] \<and>
   map (\<lambda>i. runSingleClient i (session truncatedBatch i)) [1, 2, 3, 4, 5, 6, 7]
     = map (\<lambda>i. Inr (quickOutcome i)) [1, 2, 3, 4, 5, 6, 7]"
proof -
  have late: "\<not> list_all (settledInTime truncatedBatch)
                  [1..numberOfClients (newRunner 10 ''german_sample_16k.wav'')]"
    by (simp add: newRunner_def upto_1_10 truncatedBatch_def settledInTime_def)
  have settled_returned: "list_all (sessionReturns truncatedBatch)
                (filter (\<lambda>i. 1 \<le> i \<and> i \<le> numberOfClients (newRunner 10 ''german_sample_16k.wav''))
                   (settleOrder truncatedBatch))"
    by (simp add: newRunner_def truncatedBatch_def sessionReturns_def quickSession_run)
  have "filter (settledInTime truncatedBatch) [1..10] = [1, 2, 3, 4, 5, 6, 7]"
    by (simp add: upto_1_10 truncatedBatch_def settledInTime_def)
  moreover have "map (\<lambda>i. runSingleClient i (session truncatedBatch i)) [1, 2, 3, 4, 5, 6, 7]
                   = map (\<lambda>i. Inr (quickOutcome i)) [1, 2, 3, 4, 5, 6, 7]"
    by (simp add: truncatedBatch_def quickSession_run)
  ultimately show ?thesis
    using runStressTest_global_timeout [OF late settled_returned]
    by (simp add: newRunner_def truncatedBatch_def globalTimeoutError_def)
qed

lemma noPrototypeBatch_run:
  "runStressTest (newRunner 3 ''german_sample_16k.wav'') noPrototypeBatch =
     \<lparr> returned = Inl (ErrorObject ''Cannot convert object to primitive value''),
       runnerAfter = newRunner 3 ''german_sample_16k.wav'',
       console = [Interrupted 600 ''Cannot convert object to primitive value''] \<rparr>"
  by (simp add: runStressTest_unfold raceWithGlobalTimer_def settledPromises_def newRunner_def
      noPrototypeBatch_def calmBatch_def upto_1_3 noPrototypeSession_run quickSession_run)

text \<open>
  Claim C4, as stated, fails in its second half: sessions that all settle before the
  global timer fires do not always give \<open>n\<close> outcomes. In a batch of three whose session 2
  is rejected with an object that has no string conversion, the promise of that session
  rejects (line 85 throws), \<^verbatim>\<open>Promise.all\<close> rejects with it, and the run throws with an
  empty result list although every session has settled in time.
\<close>

theorem C4_rejecting_session_empties_the_batch:
  "list_all (settledInTime noPrototypeBatch) [1..3] \<and>
   returned (runStressTest (newRunner 3 ''german_sample_16k.wav'') noPrototypeBatch)
     = Inl (ErrorObject ''Cannot convert object to primitive value'') \<and>
   results (runnerAfter (runStressTest (newRunner 3 ''german_sample_16k.wav'') noPrototypeBatch))
     = []"
proof -
  have settled: "list_all (settledInTime noPrototypeBatch) [1..3]"
    by (simp add: upto_1_3 settledInTime_def noPrototypeBatch_def calmBatch_def)
  have fresh: "results (newRunner 3 ''german_sample_16k.wav'') = []"
    by (simp add: newRunner_def)
  from settled fresh show ?thesis by (simp add: noPrototypeBatch_run)
qed

text \<open>
  Claim C4, amended: for every client count \<open>n \<ge> 1\<close>, a run of a new runner leaves at
  most \<open>n\<close> outcomes in the result list. The run returns normally exactly when all \<open>n\<close>
  sessions settle before the global timer fires and none of their promises rejects; and
  then it leaves exactly \<open>n\<close> outcomes, whose client ids are \<open>1, \<dots>, n\<close> in this order, so
  that the outcome at position \<open>i - 1\<close> has client id \<open>i\<close>.
\<close>

theorem C4_batch_outcomes_indexed_by_id:
  assumes "1 \<le> n"
  shows "length (results (runnerAfter (runStressTest (newRunner n file) env))) \<le> nat n \<and>
     ((returned (runStressTest (newRunner n file) env) = Inr ()) =
        (list_all (settledInTime env) [1..n] \<and> list_all (sessionReturns env) [1..n])) \<and>
     (list_all (settledInTime env) [1..n] \<and> list_all (sessionReturns env) [1..n] \<longrightarrow>
        returned (runStressTest (newRunner n file) env) = Inr () \<and>
        length (results (runnerAfter (runStressTest (newRunner n file) env))) = nat n \<and>
        map clientId (results (runnerAfter (runStressTest (newRunner n file) env))) = [1..n] \<and>
        (\<forall>i. 1 \<le> i \<and> i \<le> n \<longrightarrow>
           clientId (results (runnerAfter (runStressTest (newRunner n file) env)) ! nat (i - 1))
             = i))"
proof -
  have returns: "(returned (runStressTest (newRunner n file) env) = Inr ()) =
        (list_all (settledInTime env) [1..n] \<and> list_all (sessionReturns env) [1..n])"
    using runStressTest_returns_iff [of "newRunner n file" env] by (simp add: newRunner_def)
  show ?thesis
  proof (cases "list_all (settledInTime env) [1..n] \<and> list_all (sessionReturns env) [1..n]")
    case True
    then have run: "runStressTest (newRunner n file) env =
       \<lparr> returned = Inr (),
         runnerAfter = (newRunner n file) \<lparr> results :=
           map (\<lambda>i. projr (runSingleClient i (session env i))) [1..n] \<rparr>,
         console = [Report (printResults ((newRunner n file) \<lparr> results :=
           map (\<lambda>i. projr (runSingleClient i (session env i))) [1..n] \<rparr>)
             (batchEnd env - batchStart env))] \<rparr>"
      using runStressTest_all_settled [of env "newRunner n file"] by (simp add: newRunner_def)
    have cid: "clientId (projr (runSingleClient i (session env i))) = i"
      if "i \<in> set [1..n]" for i
    proof -
      from True that have "sessionReturns env i" by (simp add: list_all_iff)
      then obtain outcome where "runSingleClient i (session env i) = Inr outcome"
        by (auto simp: sessionReturns_def split: sum.splits)
      then show ?thesis using clientId_runSingleClient [of i "session env i" outcome] by simp
    qed
    have ids: "map clientId (map (\<lambda>i. projr (runSingleClient i (session env i))) [1..n]) = [1..n]"
    proof -
      have "map (\<lambda>i. clientId (projr (runSingleClient i (session env i)))) [1..n]
              = map (\<lambda>i. i) [1..n]"
        by (rule map_cong) (simp_all add: cid)
      then show ?thesis by (simp add: comp_def)
    qed
    have nth: "clientId (map (\<lambda>i. projr (runSingleClient i (session env i))) [1..n] ! nat (i - 1)) = i"
      if "1 \<le> i" "i \<le> n" for i
    proof -
      from that have "nat (i - 1) < length [1..n]" by simp
      moreover from that have "[1..n] ! nat (i - 1) = i" by simp
      moreover from that have "i \<in> set [1..n]" by simp
      ultimately show ?thesis by (simp add: cid)
    qed
    from True show ?thesis using assms ids nth returns by (simp add: run)
  next
    case False
    with returns have "returned (runStressTest (newRunner n file) env) \<noteq> Inr ()" by simp
    then have "runnerAfter (runStressTest (newRunner n file) env) = newRunner n file"
      by (rule runStressTest_throws_keeps_runner)
    then have "length (results (runnerAfter (runStressTest (newRunner n file) env))) \<le> nat n"
      by (simp add: newRunner_def)
    with False returns show ?thesis by blast
  qed
qed

theorem C4_batch_outcomes_indexed_by_id_witness:
  "(1::int) \<le> 3 \<and> list_all (settledInTime mixedBatch) [1..3] \<and>
   list_all (sessionReturns mixedBatch) [1..3] \<and>
   returned (runStressTest (newRunner 3 ''german_sample_16k.wav'') mixedBatch) = Inr () \<and>
   length (results (runnerAfter (runStressTest (newRunner 3 ''german_sample_16k.wav'') mixedBatch)))
     = 3 \<and>
   map clientId
     (results (runnerAfter (runStressTest (newRunner 3 ''german_sample_16k.wav'') mixedBatch)))
     = [1, 2, 3]"
  using C4_batch_outcomes_indexed_by_id [of 3 "''german_sample_16k.wav''" mixedBatch]
    mixedBatch_settled mixedBatch_returns
  by (simp add: upto_1_3)

text \<open>
  Claim C6, as stated, fails in its second half: with no clients the success rate is the
  quotient \<open>0 / 0\<close>, which line 153 computes without a guard, so the reported rate is NaN
  and neither 0 nor a placeholder.
\<close>

theorem C6_zero_clients_rate_is_NaN:
  "console (runStressTest (newRunner 0 ''german_sample_16k.wav'') calmBatch)
     = [Report \<lparr> totalTime = 600, successfulCount = 0, failedCount = 0, outOf = 0,
                 successRate = NaN, errorCounts = [], recommendation = Excellent,
                 timeoutFailures = 0 \<rparr>] \<and>
   successRate (printResults (newRunner 0 ''german_sample_16k.wav'') 600) \<noteq> Finite 0"
proof -
  have "list_all (settledInTime calmBatch)
          [1..numberOfClients (newRunner 0 ''german_sample_16k.wav'')]"
    and "list_all (sessionReturns calmBatch)
          [1..numberOfClients (newRunner 0 ''german_sample_16k.wav'')]"
    by (simp_all add: newRunner_def)
  from runStressTest_all_settled [OF this] show ?thesis
    by (simp add: newRunner_def printResults_def successful_def failed_def
        successRatePercent_def jsDivide_def failureAnalysis_def recommend_def calmBatch_def)
qed

text \<open>
  Claim C6, amended: with no clients the batch completes at once, whatever the environment
  does: it returns normally, the result list is empty, and one report is printed, showing
  0 successful and 0 failed out of 0. The success rate in that report is NaN: the division
  of zero by zero is not guarded.
\<close>

theorem C6_zero_clients_empty_result_and_NaN_rate:
  "runStressTest (newRunner 0 file) env =
     \<lparr> returned = Inr (), runnerAfter = newRunner 0 file,
       console = [Report \<lparr> totalTime = batchEnd env - batchStart env, successfulCount = 0,
                           failedCount = 0, outOf = 0, successRate = NaN, errorCounts = [],
                           recommendation = Excellent, timeoutFailures = 0 \<rparr>] \<rparr> \<and>
   results (newRunner 0 file) = []"
  using runStressTest_all_settled [of env "newRunner 0 file"]
  by (simp add: newRunner_def printResults_def successful_def failed_def
      successRatePercent_def jsDivide_def failureAnalysis_def recommend_def)

section \<open>Properties of the report\<close>

subsection \<open>The classifier\<close>

text \<open>\<^const>\<open>includesText\<close> decides what the specification calls containing a marker.\<close>

lemma includesText_iff_containsMarker:
  "includesText message marker = containsMarker message marker"
proof (induction message)
  case Nil
  show ?case by (auto simp: containsMarker_def)
next
  case (Cons c cs)
  show ?case
  proof
    assume "includesText (c # cs) marker"
    then consider "prefix marker (c # cs)" | "includesText cs marker" by auto
    then show "containsMarker (c # cs) marker"
    proof cases
      case 1
      then obtain rest where "c # cs = marker @ rest" by (auto simp: prefix_def)
      then have "c # cs = [] @ marker @ rest" by simp
      then show ?thesis unfolding containsMarker_def by blast
    next
      case 2
      with Cons obtain before after where "cs = before @ marker @ after"
        by (auto simp: containsMarker_def)
      then have "c # cs = (c # before) @ marker @ after" by simp
      then show ?thesis unfolding containsMarker_def by blast
    qed
  next
    assume "containsMarker (c # cs) marker"
    then obtain before after where eq: "c # cs = before @ marker @ after"
      by (auto simp: containsMarker_def)
    show "includesText (c # cs) marker"
    proof (cases before)
      case Nil
      with eq have "prefix marker (c # cs)" by (simp add: prefix_def)
      then show ?thesis by simp
    next
      case (Cons b bs)
      with eq have "cs = bs @ marker @ after" by simp
      then have "containsMarker cs marker" unfolding containsMarker_def by blast
      with Cons.IH show ?thesis by simp
    qed
  qed
qed

lemma splitFirst_before_colon:
  "CHR '':'' \<notin> set (splitFirst message) \<and>
   (message = splitFirst message \<or> (\<exists>rest. message = splitFirst message @ CHR '':'' # rest))"
proof -
  have "CHR '':'' \<notin> set (splitFirst message)"
    unfolding splitFirst_def by (auto dest: set_takeWhileD)
  moreover have "message = splitFirst message \<or>
                 (\<exists>rest. message = splitFirst message @ CHR '':'' # rest)"
  proof (cases "dropWhile (\<lambda>c. c \<noteq> CHR '':'') message")
    case Nil
    then have whole: "takeWhile (\<lambda>c. c \<noteq> CHR '':'') message = message"
      by (simp add: takeWhile_eq_all_conv)
    have "message = splitFirst message"
      unfolding splitFirst_def by (rule whole [symmetric])
    then show ?thesis by (rule disjI1)
  next
    case (Cons y ys)
    then have "y = CHR '':''" using hd_dropWhile [of "\<lambda>c. c \<noteq> CHR '':''" message] by auto
    with Cons have "message = splitFirst message @ CHR '':'' # ys"
      unfolding splitFirst_def by (metis takeWhile_dropWhile_id)
    then show ?thesis by blast
  qed
  ultimately show ?thesis by simp
qed

text \<open>
  Claim C5: the classifier applies its rules in order and the first match wins. A message
  containing \<open>timed out\<close> is in the bucket \<open>Timeout\<close>; otherwise one containing
  \<open>WebSocket\<close> is in the bucket \<open>WebSocket Error\<close>; otherwise one containing
  \<open>Server is not available\<close> is in the bucket \<open>Server Unavailable\<close>; otherwise the bucket
  of a non-empty message is its part before the first colon (the whole message when it
  has no colon). An outcome without a message, which for the code is an absent or an empty
  error field, is in the bucket \<open>Unknown\<close>.
\<close>

theorem C5_classifier_first_match_wins:
  "(error outcome = None \<longrightarrow> errorType outcome = ''Unknown'') \<and>
   (\<forall>message. error outcome = Some message \<longrightarrow>
      (containsMarker message ''timed out'' \<longrightarrow> errorType outcome = ''Timeout'') \<and>
      (\<not> containsMarker message ''timed out'' \<and> containsMarker message ''WebSocket'' \<longrightarrow>
         errorType outcome = ''WebSocket Error'') \<and>
      (\<not> containsMarker message ''timed out'' \<and> \<not> containsMarker message ''WebSocket'' \<and>
       containsMarker message ''Server is not available'' \<longrightarrow>
         errorType outcome = ''Server Unavailable'') \<and>
      (\<not> containsMarker message ''timed out'' \<and> \<not> containsMarker message ''WebSocket'' \<and>
       \<not> containsMarker message ''Server is not available'' \<and> message \<noteq> [] \<longrightarrow>
         CHR '':'' \<notin> set (errorType outcome) \<and>
         (message = errorType outcome \<or>
          (\<exists>rest. message = errorType outcome @ CHR '':'' # rest))) \<and>
      (message = [] \<longrightarrow> errorType outcome = ''Unknown''))"
proof -
  have none: "error outcome = None \<longrightarrow> errorType outcome = ''Unknown''"
    by (simp add: errorType_def)
  have some: "(containsMarker message ''timed out'' \<longrightarrow> errorType outcome = ''Timeout'') \<and>
      (\<not> containsMarker message ''timed out'' \<and> containsMarker message ''WebSocket'' \<longrightarrow>
         errorType outcome = ''WebSocket Error'') \<and>
      (\<not> containsMarker message ''timed out'' \<and> \<not> containsMarker message ''WebSocket'' \<and>
       containsMarker message ''Server is not available'' \<longrightarrow>
         errorType outcome = ''Server Unavailable'') \<and>
      (\<not> containsMarker message ''timed out'' \<and> \<not> containsMarker message ''WebSocket'' \<and>
       \<not> containsMarker message ''Server is not available'' \<and> message \<noteq> [] \<longrightarrow>
         CHR '':'' \<notin> set (errorType outcome) \<and>
         (message = errorType outcome \<or>
          (\<exists>rest. message = errorType outcome @ CHR '':'' # rest))) \<and>
      (message = [] \<longrightarrow> errorType outcome = ''Unknown'')"
    if msg: "error outcome = Some message" for message
  proof -
    have nonempty: "message \<noteq> []" if "containsMarker message marker" "marker \<noteq> []" for marker
      using that by (auto simp: containsMarker_def)
    have a: "containsMarker message ''timed out'' \<longrightarrow> errorType outcome = ''Timeout''"
      using msg nonempty [of "''timed out''"]
      by (auto simp: errorType_def includesText_iff_containsMarker)
    have b: "\<not> containsMarker message ''timed out'' \<and> containsMarker message ''WebSocket'' \<longrightarrow>
         errorType outcome = ''WebSocket Error''"
      using msg nonempty [of "''WebSocket''"]
      by (auto simp: errorType_def includesText_iff_containsMarker)
    have c: "\<not> containsMarker message ''timed out'' \<and> \<not> containsMarker message ''WebSocket'' \<and>
       containsMarker message ''Server is not available'' \<longrightarrow>
         errorType outcome = ''Server Unavailable''"
      using msg nonempty [of "''Server is not available''"]
      by (auto simp: errorType_def includesText_iff_containsMarker)
    have d: "\<not> containsMarker message ''timed out'' \<and> \<not> containsMarker message ''WebSocket'' \<and>
       \<not> containsMarker message ''Server is not available'' \<and> message \<noteq> [] \<longrightarrow>
         CHR '':'' \<notin> set (errorType outcome) \<and>
         (message = errorType outcome \<or>
          (\<exists>rest. message = errorType outcome @ CHR '':'' # rest))"
    proof
      assume h: "\<not> containsMarker message ''timed out'' \<and> \<not> containsMarker message ''WebSocket'' \<and>
       \<not> containsMarker message ''Server is not available'' \<and> message \<noteq> []"
      with msg have "errorType outcome = splitFirst message"
        by (simp add: errorType_def includesText_iff_containsMarker)
      then show "CHR '':'' \<notin> set (errorType outcome) \<and>
         (message = errorType outcome \<or>
          (\<exists>rest. message = errorType outcome @ CHR '':'' # rest))"
        using splitFirst_before_colon [of message] by simp
    qed
    have e: "message = [] \<longrightarrow> errorType outcome = ''Unknown''"
      using msg by (simp add: errorType_def)
    from a b c d e show ?thesis by blast
  qed
  from none some show ?thesis by blast
qed

theorem C5_classifier_first_match_wins_witness:
  "containsMarker ''Client 3 timed out after 3 minutes'' ''timed out'' \<and>
   errorType (failedWith 3 (Some ''Client 3 timed out after 3 minutes'')) = ''Timeout'' \<and>
   \<not> containsMarker ''WebSocket connection failed: Connection refused'' ''timed out'' \<and>
   containsMarker ''WebSocket connection failed: Connection refused'' ''WebSocket'' \<and>
   errorType (failedWith 2 (Some ''WebSocket connection failed: Connection refused''))
     = ''WebSocket Error'' \<and>
   \<not> containsMarker ''ECONNREFUSED: no route'' ''timed out'' \<and>
   \<not> containsMarker ''ECONNREFUSED: no route'' ''WebSocket'' \<and>
   \<not> containsMarker ''ECONNREFUSED: no route'' ''Server is not available'' \<and>
   CHR '':'' \<notin> set (errorType (failedWith 4 (Some ''ECONNREFUSED: no route''))) \<and>
   errorType (failedWith 5 None) = ''Unknown'' \<and>
   errorType (failedWith 6 (Some [])) = ''Unknown''"
proof -
  have a: "containsMarker ''Client 3 timed out after 3 minutes'' ''timed out''"
    by (simp add: includesText_iff_containsMarker [symmetric])
  have b: "\<not> containsMarker ''WebSocket connection failed: Connection refused'' ''timed out''"
    "containsMarker ''WebSocket connection failed: Connection refused'' ''WebSocket''"
    by (simp_all add: includesText_iff_containsMarker [symmetric])
  have c: "\<not> containsMarker ''ECONNREFUSED: no route'' ''timed out''"
    "\<not> containsMarker ''ECONNREFUSED: no route'' ''WebSocket''"
    "\<not> containsMarker ''ECONNREFUSED: no route'' ''Server is not available''"
    by (simp_all add: includesText_iff_containsMarker [symmetric])
  have "errorType (failedWith 3 (Some ''Client 3 timed out after 3 minutes'')) = ''Timeout''"
    using a C5_classifier_first_match_wins
            [of "failedWith 3 (Some ''Client 3 timed out after 3 minutes'')"]
    by (simp add: failedWith_def)
  moreover have "errorType (failedWith 2 (Some ''WebSocket connection failed: Connection refused''))
                   = ''WebSocket Error''"
    using b C5_classifier_first_match_wins
            [of "failedWith 2 (Some ''WebSocket connection failed: Connection refused'')"]
    by (simp add: failedWith_def)
  moreover have "CHR '':'' \<notin> set (errorType (failedWith 4 (Some ''ECONNREFUSED: no route'')))"
    using c C5_classifier_first_match_wins
            [of "failedWith 4 (Some ''ECONNREFUSED: no route'')"]
    by (simp add: failedWith_def)
  moreover have "errorType (failedWith 5 None) = ''Unknown''"
    using C5_classifier_first_match_wins [of "failedWith 5 None"]
    by (simp add: failedWith_def)
  moreover have "errorType (failedWith 6 (Some [])) = ''Unknown''"
    using C5_classifier_first_match_wins [of "failedWith 6 (Some [])"]
    by (simp add: failedWith_def)
  ultimately show ?thesis using a b c by simp
qed

text \<open>A session that its timer cut off is counted in the bucket \<open>Timeout\<close>.\<close>

lemma timeoutText_contains_marker:
  "containsMarker (''Client '' @ showInt cid @ '' timed out after 3 minutes'') ''timed out''"
proof -
  have "''Client '' @ showInt cid @ '' timed out after 3 minutes''
          = (''Client '' @ showInt cid @ '' '') @ ''timed out'' @ '' after 3 minutes''"
    by simp
  then show ?thesis unfolding containsMarker_def by blast
qed

lemma timed_out_session_in_Timeout_bucket:
  assumes "construct env = None" and "timerFirst env \<or> clientWork env = Pending"
  shows "\<exists>outcome. runSingleClient cid env = Inr outcome \<and> errorType outcome = ''Timeout''"
proof -
  have "sessionAttempt cid env = Inl (sessionTimeoutError cid)"
    using assms by (rule sessionAttempt_timer_wins)
  then have run: "runSingleClient cid env =
      Inr \<lparr> clientId = cid, success = False, startTime = nowAtStart env,
            endTime = Some (nowAtEnd env), duration = Some (nowAtEnd env - nowAtStart env),
            error = Some (''Client '' @ showInt cid @ '' timed out after 3 minutes'') \<rparr>"
    by (simp add: runSingleClient_cases sessionTimeoutError_def)
  have "errorType \<lparr> clientId = cid, success = False, startTime = nowAtStart env,
            endTime = Some (nowAtEnd env), duration = Some (nowAtEnd env - nowAtStart env),
            error = Some (''Client '' @ showInt cid @ '' timed out after 3 minutes'') \<rparr>
          = ''Timeout''"
    using timeoutText_contains_marker [of cid]
    by (simp add: errorType_def includesText_iff_containsMarker)
  with run show ?thesis by simp
qed

subsection \<open>The recommendation\<close>





subsection \<open>The failure histogram\<close>

lemma map_of_mapSet: "map_of (mapSet k v m) = (map_of m)(k \<mapsto> v)"
  by (induction m) (auto simp: fun_upd_twist)

lemma getOrZero_mapSet: "getOrZero b (mapSet k v m) = (if b = k then v else getOrZero b m)"
  by (simp add: getOrZero_def mapGet_def map_of_mapSet)

lemma keys_mapSet: "fst ` set (mapSet k v m) = insert k (fst ` set m)"
proof -
  have "dom (map_of (mapSet k v m)) = dom ((map_of m)(k \<mapsto> v))"
    by (simp only: map_of_mapSet)
  then show ?thesis by (simp add: dom_map_of_conv_image_fst)
qed

lemma distinct_mapSet: "distinct (map fst m) \<Longrightarrow> distinct (map fst (mapSet k v m))"
proof (induction m)
  case Nil
  show ?case by simp
next
  case (Cons p m)
  obtain k' v' where p: "p = (k', v')" by (cases p)
  from Cons.prems p have fresh: "k' \<notin> fst ` set m" and rest: "distinct (map fst m)"
    by simp_all
  show ?case
  proof (cases "k' = k")
    case True
    with fresh rest p show ?thesis by simp
  next
    case False
    with fresh have "k' \<notin> fst ` set (mapSet k v m)" by (simp add: keys_mapSet)
    with False p Cons.IH [OF rest] show ?thesis by simp
  qed
qed

lemma sum_mapSet_increment:
  "sum_list (map snd (mapSet k (Suc (getOrZero k m)) m)) = Suc (sum_list (map snd m))"
  by (induction m) (auto simp: getOrZero_def mapGet_def)

lemma sum_fold_countError:
  "sum_list (map snd (fold countError outcomes m)) = sum_list (map snd m) + length outcomes"
  by (induction outcomes arbitrary: m) (simp_all add: countError_def sum_mapSet_increment)

lemma distinct_fold_countError:
  "distinct (map fst m) \<Longrightarrow> distinct (map fst (fold countError outcomes m))"
  by (induction outcomes arbitrary: m) (simp_all add: countError_def distinct_mapSet)

lemma getOrZero_fold_countError:
  "getOrZero b (fold countError outcomes m) =
     getOrZero b m + length (filter (\<lambda>r. errorType r = b) outcomes)"
  by (induction outcomes arbitrary: m) (auto simp: countError_def getOrZero_mapSet)

lemma failureAnalysis_fold: "failureAnalysis outcomes = fold countError outcomes []"
  by (cases outcomes) (simp_all add: failureAnalysis_def)


lemma errorType_depends_on_error: "errorType outcome = errorType (failedWith cid (error outcome))"
  by (simp add: errorType_def failedWith_def)

lemma failed_errors_cong:
  "map success rs = map success rs' \<Longrightarrow> map error rs = map error rs' \<Longrightarrow>
     map error (filter (\<lambda>r. \<not> success r) rs) = map error (filter (\<lambda>r. \<not> success r) rs')"
proof (induction rs arbitrary: rs')
  case Nil
  then show ?case by simp
next
  case (Cons r rs)
  then obtain q qs where "rs' = q # qs" by (cases rs') auto
  with Cons show ?case by auto
qed

lemma countError_cong: "error r = error q \<Longrightarrow> countError r m = countError q m"
  by (simp add: countError_def errorType_def)

lemma fold_countError_cong:
  "map error rs = map error rs' \<Longrightarrow> fold countError rs m = fold countError rs' m"
proof (induction rs arbitrary: rs' m)
  case Nil
  then show ?case by simp
next
  case (Cons r rs)
  then obtain q qs where q: "rs' = q # qs" by (cases rs') auto
  with Cons.prems have hd: "error r = error q" and tl: "map error rs = map error qs"
    by simp_all
  have "fold countError (r # rs) m = fold countError rs (countError r m)" by simp
  also have "\<dots> = fold countError rs (countError q m)"
    by (simp only: countError_cong [OF hd])
  also have "\<dots> = fold countError qs (countError q m)"
    by (rule Cons.IH [OF tl])
  also have "\<dots> = fold countError rs' m" by (simp add: q)
  finally show ?case .
qed


text \<open>
  Claim C9: the histogram is a function of the outcomes' success flags and error fields
  and of nothing else. Two reports over outcome lists that agree on these fields, printed
  by any runners at any times, have the same bucket counts, so classifying the same
  outcome set twice gives the same histogram; and the bucket of each outcome depends only
  on its error field.
\<close>

theorem C9_histogram_depends_on_error_fields_only:
  assumes "map success rs = map success rs'" and "map error rs = map error rs'"
  shows "errorCounts (printResults (runner \<lparr> results := rs \<rparr>) elapsed)
           = errorCounts (printResults (runner' \<lparr> results := rs' \<rparr>) elapsed') \<and>
         map errorType rs = map errorType rs'"
proof -
  have "map error (filter (\<lambda>r. \<not> success r) rs) = map error (filter (\<lambda>r. \<not> success r) rs')"
    using assms by (rule failed_errors_cong)
  then have "fold countError (filter (\<lambda>r. \<not> success r) rs) []
               = fold countError (filter (\<lambda>r. \<not> success r) rs') []"
    by (rule fold_countError_cong)
  then have "failureAnalysis (failed (runner \<lparr> results := rs \<rparr>))
               = failureAnalysis (failed (runner' \<lparr> results := rs' \<rparr>))"
    by (simp add: failureAnalysis_fold failed_def)
  moreover have "map errorType rs = map errorType rs'"
  proof -
    have "map errorType rs = map (\<lambda>e. errorType (failedWith 0 e)) (map error rs)"
      by (simp add: comp_def errorType_def failedWith_def)
    also have "\<dots> = map (\<lambda>e. errorType (failedWith 0 e)) (map error rs')"
      using assms by simp
    also have "\<dots> = map errorType rs'"
      by (simp add: comp_def errorType_def failedWith_def)
    finally show ?thesis .
  qed
  ultimately show ?thesis by (simp add: printResults_def)
qed

theorem C9_histogram_depends_on_error_fields_only_witness:
  "map success [refusedOutcome]
     = map success [failedWith 7 (Some ''WebSocket connection failed: Connection refused'')] \<and>
   map error [refusedOutcome]
     = map error [failedWith 7 (Some ''WebSocket connection failed: Connection refused'')] \<and>
   errorCounts (printResults (mixedRunner \<lparr> results := [refusedOutcome] \<rparr>) 600)
     = errorCounts (printResults (timeoutRunner \<lparr> results :=
         [failedWith 7 (Some ''WebSocket connection failed: Connection refused'')] \<rparr>) 0)"
proof -
  have same: "map success [refusedOutcome]
      = map success [failedWith 7 (Some ''WebSocket connection failed: Connection refused'')]"
    "map error [refusedOutcome]
      = map error [failedWith 7 (Some ''WebSocket connection failed: Connection refused'')]"
    by (simp_all add: refusedOutcome_def failedWith_def)
  from C9_histogram_depends_on_error_fields_only [OF same, of mixedRunner 600 timeoutRunner 0]
    same
  show ?thesis by simp
qed

text \<open>
  Claim C10: the histogram partitions the failed outcomes. Its counts add up to the number
  of outcomes that did not succeed, which is the failure count of the report; no bucket is
  listed twice; the count of each bucket is the number of failed outcomes that the
  classifier puts in it; and an outcome whose error message is the empty string is in the
  bucket \<open>Unknown\<close>, as is one whose message is absent.
\<close>

theorem C10_histogram_partitions_failures:
  "sum_list (map snd (errorCounts (printResults runner elapsed)))
     = length (filter (\<lambda>r. \<not> success r) (results runner)) \<and>
   failedCount (printResults runner elapsed)
     = length (filter (\<lambda>r. \<not> success r) (results runner)) \<and>
   distinct (map fst (errorCounts (printResults runner elapsed))) \<and>
   (\<forall>bucket. getOrZero bucket (errorCounts (printResults runner elapsed))
      = length (filter (\<lambda>r. \<not> success r \<and> errorType r = bucket) (results runner))) \<and>
   (error outcome = Some [] \<or> error outcome = None \<longrightarrow> errorType outcome = ''Unknown'')"
proof -
  have total: "sum_list (map snd (errorCounts (printResults runner elapsed)))
     = length (filter (\<lambda>r. \<not> success r) (results runner))"
    by (simp add: printResults_def failureAnalysis_fold sum_fold_countError failed_def)
  have count: "failedCount (printResults runner elapsed)
     = length (filter (\<lambda>r. \<not> success r) (results runner))"
    by (simp add: printResults_def failed_def)
  have keys: "distinct (map fst (errorCounts (printResults runner elapsed)))"
    by (simp add: printResults_def failureAnalysis_fold distinct_fold_countError)
  have each: "getOrZero bucket (errorCounts (printResults runner elapsed))
      = length (filter (\<lambda>r. \<not> success r \<and> errorType r = bucket) (results runner))" for bucket
  proof -
    have "getOrZero bucket ([] :: (string \<times> nat) list) = 0"
      by (simp add: getOrZero_def mapGet_def)
    then have "getOrZero bucket (fold countError (failed runner) [])
                 = length (filter (\<lambda>r. errorType r = bucket) (failed runner))"
      by (simp add: getOrZero_fold_countError)
    then show ?thesis
      by (simp add: printResults_def failureAnalysis_fold failed_def conj_commute)
  qed
  have unknown: "error outcome = Some [] \<or> error outcome = None \<longrightarrow> errorType outcome = ''Unknown''"
    by (auto simp: errorType_def)
  from total count keys each unknown show ?thesis by blast
qed

theorem C10_histogram_partitions_failures_witness:
  "sum_list (map snd (errorCounts (printResults timeoutRunner 0))) = 4 \<and>
   failedCount (printResults timeoutRunner 0) = 4 \<and>
   error (failedWith 2 (Some [])) = Some [] \<and>
   errorType (failedWith 2 (Some [])) = ''Unknown''"
  using C10_histogram_partitions_failures [of timeoutRunner 0 "failedWith 2 (Some [])"]
  by (simp add: timeoutRunner_def failedWith_def quickOutcome_def)

end
